theory Spec2Isabelle
  imports Complex_Main
begin

section \<open>The voice streaming service of server/services/voiceStreaming.ts\<close>

text \<open>
  The class \<^verbatim>\<open>VoiceStreamingService\<close> keeps two maps, \<^verbatim>\<open>activeSessions\<close> and
  \<^verbatim>\<open>sessionKeyMap\<close>, and reacts to events of the client socket and of the ElevenLabs socket
  through closures. The embedding is by explicit state passing:
  \<^item> the session objects live in a store (\<open>objects\<close>, addressed by position), because the
    registry and the closures of the handlers hold the same object by reference;
  \<^item> everything the service does to the outside (frames sent on a socket, calls of a
    collaborator) is appended, in program order, to the \<open>effects\<close> of the state;
  \<^item> what the outside answers (a rejected promise, the provider's reply, the clock) is a
    parameter of the function that asks for it;
  \<^item> a function that can throw returns a sum, \<open>Inl\<close> carrying the error, next to the state
    it has reached.
  Diagnostics written with \<^verbatim>\<open>console.log\<close>, \<^verbatim>\<open>console.warn\<close> and \<^verbatim>\<open>console.error\<close> are
  left out. Each \<^verbatim>\<open>async\<close> function is run to completion before the next one starts:
  interleavings at an \<^verbatim>\<open>await\<close> are not part of the model.
\<close>

subsection \<open>Data\<close>

datatype ReadyState = CONNECTING | OPEN | CLOSING | CLOSED

text \<open>The \<^verbatim>\<open>ws\<close> socket towards ElevenLabs, as far as the service reads it.\<close>

record WebSocket =
  readyState :: ReadyState

text \<open>
  \<^verbatim>\<open>interface VoiceStreamingSession\<close>. The optional field \<^verbatim>\<open>geminiSession\<close> is never
  assigned or read and is left out.
\<close>

record VoiceStreamingSession =
  sessionId :: string
  conversationId :: string
  personality :: string
  elevenLabsWs :: "WebSocket option"
  isActive :: bool
  startTime :: nat

datatype error = Error string

text \<open>Messages sent to the client, one constructor per \<^verbatim>\<open>type\<close> tag.\<close>

datatype client_msg =
    MsgError string
  | MsgVoiceReady string
  | MsgAudioProcessing string
  | MsgTranscript string
  | MsgAiResponse string
  | MsgAudioOutput string "string option"

text \<open>
  Frames sent to ElevenLabs: the initial frame (its \<^verbatim>\<open>text\<close>; the voice settings, the
  chunk schedule and the key are constants or configuration), \<^verbatim>\<open>{text, try_trigger_generation}\<close>
  and \<^verbatim>\<open>{text, flush}\<close>.
\<close>

datatype el_frame =
    BosFrame string
  | TextFrame string bool
  | FlushFrame string bool

record Metadata =
  m_tier :: string
  m_tokenBalance :: int
  m_walletAddress :: "string option"
  m_timestamp :: nat

record WebhookPayload =
  p_personality :: string
  p_modality :: string
  p_sessionId :: string
  p_conversationId :: string
  p_content :: string
  p_metadata :: Metadata

record RequestData =
  q_personality :: string
  q_modality :: string
  q_content :: string

datatype ResponseData =
    Sent string string
  | Failed error

record WebhookLog =
  l_sessionId :: string
  l_conversationId :: string
  l_requestData :: RequestData
  l_responseData :: ResponseData
  l_status :: string

record AudioCache =
  c_sessionId :: string
  c_conversationId :: string
  c_audioUrl :: string
  c_secureToken :: string
  c_text :: string

text \<open>
  The effects, in the order the service causes them. A socket towards ElevenLabs is named
  by the session object that owns it; a client socket by a number.
\<close>

datatype event =
    ClientSend nat client_msg
  | ElevenLabsNew nat
  | ElevenLabsSend nat el_frame
  | ElevenLabsClose nat
  | GeminiGenerateContent string
  | StorageGetSession string
  | AxiosPost string WebhookPayload
  | CreateWebhookLog WebhookLog
  | CreateAudioCache AudioCache
  | IncrementVoiceMinutes string int

record VoiceStreamingService =
  objects :: "VoiceStreamingSession list"
  activeSessions :: "string \<rightharpoonup> nat"
  sessionKeyMap :: "string \<rightharpoonup> string"
  N8N_WEBHOOK_URL :: "string option"
  effects :: "event list"

definition emit :: "event \<Rightarrow> VoiceStreamingService \<Rightarrow> VoiceStreamingService" where
  "emit e st = st\<lparr>effects := effects st @ [e]\<rparr>"

text \<open>The effects added between an earlier state and a later one.\<close>

definition newEvents :: "VoiceStreamingService \<Rightarrow> VoiceStreamingService \<Rightarrow> event list" where
  "newEvents st st' = drop (length (effects st)) (effects st')"

subsection \<open>Stream identifiers\<close>

text \<open>
  \<^verbatim>\<open>${sessionId}-voice-${Date.now()}\<close>: \<^verbatim>\<open>Date.now()\<close> is a count of milliseconds, printed
  in decimal.
\<close>

definition digitChar :: "nat \<Rightarrow> char" where
  "digitChar d = ''0123456789'' ! d"

function numberToString :: "nat \<Rightarrow> string" where
  "numberToString n =
     (if n < 10 then [digitChar n] else numberToString (n div 10) @ [digitChar (n mod 10)])"
  by pat_completeness auto
termination
  by (relation "measure id") auto

declare numberToString.simps [simp del]

definition streamSessionIdOf :: "string \<Rightarrow> nat \<Rightarrow> string" where
  "streamSessionIdOf sid now = sid @ ''-voice-'' @ numberToString now"

subsection \<open>Teardown\<close>

text \<open>
  \<^verbatim>\<open>Math.ceil(durationMs / (60 * 1000))\<close>. Both timestamps are whole milliseconds, and on
  whole numbers below \<open>2^53\<close> the rounded quotient of the source has the same ceiling as the
  exact one, so the quotient is taken exactly. The wall clock may step back, so the
  difference is an integer.
\<close>

definition durationMinutes :: "nat \<Rightarrow> nat \<Rightarrow> int" where
  "durationMinutes start endTime =
     \<lceil>real_of_int (int endTime - int start) / (60 * 1000)\<rceil>"

text \<open>
  What the \<^verbatim>\<open>try\<close> block around the usage report meets: the dynamic import fails (no
  call is made), the call is made and rejects, or it is made and resolves.
\<close>

datatype usage_outcome = ImportFails | CallRejects | CallResolves

text \<open>
  \<^verbatim>\<open>close()\<close> of the \<^verbatim>\<open>ws\<close> package leaves a closed socket closed and moves any other to
  \<^verbatim>\<open>CLOSING\<close>.
\<close>

definition closeWs :: "WebSocket \<Rightarrow> WebSocket" where
  "closeWs ws = ws\<lparr>readyState := (if readyState ws = CLOSED then CLOSED else CLOSING)\<rparr>"

definition cleanupSession ::
  "string \<Rightarrow> nat \<Rightarrow> usage_outcome \<Rightarrow> VoiceStreamingService \<Rightarrow> VoiceStreamingService" where
  "cleanupSession streamSessionId endTime usage st =
     (case activeSessions st streamSessionId of
        None \<Rightarrow> st
      | Some r \<Rightarrow>
          (let session = (objects st ! r)\<lparr>isActive := False\<rparr>;
               minutes = durationMinutes (startTime session) endTime;
               st1 = st\<lparr>objects := (objects st)[r := session]\<rparr>;
               st2 = (case usage of
                        ImportFails \<Rightarrow> st1
                      | CallRejects \<Rightarrow> emit (IncrementVoiceMinutes (sessionId session) minutes) st1
                      | CallResolves \<Rightarrow> emit (IncrementVoiceMinutes (sessionId session) minutes) st1);
               st3 = (case elevenLabsWs session of
                        None \<Rightarrow> st2
                      | Some ws \<Rightarrow>
                          emit (ElevenLabsClose r)
                            (st2\<lparr>objects :=
                               (objects st2)[r := session\<lparr>elevenLabsWs := Some (closeWs ws)\<rparr>]\<rparr>))
           in st3\<lparr>activeSessions := (activeSessions st3)(streamSessionId := None),
                  sessionKeyMap := (sessionKeyMap st3)(sessionId session := None)\<rparr>))"

fun isUsageReport :: "event \<Rightarrow> bool" where
  "isUsageReport (IncrementVoiceMinutes s m) = True"
| "isUsageReport e = False"


subsection \<open>The synthesis link\<close>

text \<open>
  \<^verbatim>\<open>processTextInput\<close> and \<^verbatim>\<open>handleStopSpeaking\<close> take the session object (here its
  address) and send one frame if the socket is there and open.
\<close>

definition processTextInput :: "string \<Rightarrow> nat \<Rightarrow> VoiceStreamingService \<Rightarrow> VoiceStreamingService" where
  "processTextInput txt r st =
     (case elevenLabsWs (objects st ! r) of
        None \<Rightarrow> st
      | Some ws \<Rightarrow>
          if readyState ws \<noteq> OPEN then st
          else emit (ElevenLabsSend r (TextFrame txt True)) st)"

definition handleStopSpeaking :: "nat \<Rightarrow> VoiceStreamingService \<Rightarrow> VoiceStreamingService" where
  "handleStopSpeaking r st =
     (case elevenLabsWs (objects st ! r) of
        None \<Rightarrow> st
      | Some ws \<Rightarrow>
          if readyState ws \<noteq> OPEN then st
          else emit (ElevenLabsSend r (FlushFrame [] True)) st)"

subsection \<open>Transcription\<close>

text \<open>
  \<^verbatim>\<open>String.prototype.trim\<close> on the ASCII white space and line terminators (a \<open>string\<close> is
  a list of bytes; the white space beyond ASCII is not covered).
\<close>

definition isWhiteSpace :: "char \<Rightarrow> bool" where
  "isWhiteSpace c = (c \<in> {CHR '' '', CHR 0x09, CHR 0x0A, CHR 0x0B, CHR 0x0C, CHR 0x0D})"

definition trim :: "string \<Rightarrow> string" where
  "trim s = rev (dropWhile isWhiteSpace (rev (dropWhile isWhiteSpace s)))"

text \<open>
  \<^verbatim>\<open>transcribeAudio\<close>. The parameter is what \<^verbatim>\<open>generateContent\<close> does: it rejects, or it
  resolves to a response whose \<^verbatim>\<open>text\<close> is absent or a string. The error thrown inside the
  \<^verbatim>\<open>try\<close> for an empty transcription is caught by the function's own \<^verbatim>\<open>catch\<close>, which throws
  the same error as for a rejected call. The audio goes through \<^verbatim>\<open>Buffer\<close> and back to
  base64; the effect records the payload as received.
\<close>

definition transcribeAudio ::
  "string \<Rightarrow> error + string option \<Rightarrow> VoiceStreamingService
     \<Rightarrow> (error + string) \<times> VoiceStreamingService" where
  "transcribeAudio audioData geminiResult st =
     (let st1 = emit (GeminiGenerateContent audioData) st
      in case geminiResult of
           Inl err \<Rightarrow> (Inl (Error ''Failed to transcribe audio''), st1)
         | Inr None \<Rightarrow> (Inl (Error ''Failed to transcribe audio''), st1)
         | Inr (Some t) \<Rightarrow>
             (let transcription = trim t
              in if length transcription = 0
                 then (Inl (Error ''Failed to transcribe audio''), st1)
                 else (Inr transcription, st1)))"

subsection \<open>The router\<close>

text \<open>
  \<^verbatim>\<open>getWebhookUrl\<close> of server/config/webhooks.ts: one URL for every personality and
  modality, the environment variable when it is set and not empty.
\<close>

definition UNIFIED_WEBHOOK_URL :: "string option \<Rightarrow> string" where
  "UNIFIED_WEBHOOK_URL env =
     (case env of
        None \<Rightarrow> ''https://autism.app.n8n.cloud/webhook/autism-gold''
      | Some u \<Rightarrow> if u = [] then ''https://autism.app.n8n.cloud/webhook/autism-gold'' else u)"

definition getWebhookUrl :: "string option \<Rightarrow> string \<Rightarrow> string \<Rightarrow> string" where
  "getWebhookUrl env pers modality = UNIFIED_WEBHOOK_URL env"

text \<open>The row \<^verbatim>\<open>storage.getSession\<close> resolves to, as far as the payload reads it.\<close>

record SessionRow =
  s_tier :: "string option"
  s_tokenBalance :: "int option"
  s_walletAddress :: "string option"

text \<open>The body of the webhook's reply (\<^verbatim>\<open>response.data\<close>), as far as the service reads it.\<close>

record WebhookReply =
  r_response :: "string option"
  r_text :: "string option"

text \<open>
  What the outside answers while one client message is handled: the transcription
  provider, the session lookup, the webhook, and the clock.
\<close>

record environment =
  geminiResult :: "error + string option"
  getSessionResult :: "error + SessionRow option"
  postResult :: "error + WebhookReply option"
  dateNow :: nat

text \<open>\<^verbatim>\<open>a || b\<close> on an optional string: absent and empty are falsy.\<close>

definition orElse :: "string option \<Rightarrow> string \<Rightarrow> string" where
  "orElse a b = (case a of None \<Rightarrow> b | Some t \<Rightarrow> if t = [] then b else t)"

definition metadataOf :: "SessionRow option \<Rightarrow> nat \<Rightarrow> Metadata" where
  "metadataOf session now =
     \<lparr>m_tier = orElse (case session of None \<Rightarrow> None | Some s \<Rightarrow> s_tier s) ''Free Trial'',
      m_tokenBalance =
        (case session of
           None \<Rightarrow> 0
         | Some s \<Rightarrow> (case s_tokenBalance s of None \<Rightarrow> 0 | Some b \<Rightarrow> if b = 0 then 0 else b)),
      m_walletAddress = (case session of None \<Rightarrow> None | Some s \<Rightarrow> s_walletAddress s),
      m_timestamp = now\<rparr>"

text \<open>
  Modelled from the spec: \<^verbatim>\<open>storage.createWebhookLog\<close> (the module \<^verbatim>\<open>../storage\<close> is not
  among the sources). The spec gives the audit log sink as an append-only record of
  \<^verbatim>\<open>{sessionId, conversationId, requestSummary, responseSummary, status}\<close>: the call appends
  its record to the effects.
\<close>

definition createWebhookLog :: "WebhookLog \<Rightarrow> VoiceStreamingService \<Rightarrow> VoiceStreamingService" where
  "createWebhookLog entry st = emit (CreateWebhookLog entry) st"

text \<open>
  \<^verbatim>\<open>routeToN8NWebhook\<close>. Inside the \<^verbatim>\<open>try\<close>, the session lookup or the POST may reject;
  the \<^verbatim>\<open>catch\<close> writes the log record and throws the error again.
\<close>

definition routeToN8NWebhook ::
  "string \<Rightarrow> nat \<Rightarrow> string \<Rightarrow> environment \<Rightarrow> VoiceStreamingService
     \<Rightarrow> (error + WebhookReply option) \<times> VoiceStreamingService" where
  "routeToN8NWebhook txt r pers env st =
     (let voiceSession = objects st ! r;
          webhookUrl = getWebhookUrl (N8N_WEBHOOK_URL st) pers ''VOICE'';
          requestData = \<lparr>q_personality = pers, q_modality = ''VOICE'', q_content = txt\<rparr>;
          catch = (\<lambda>err st'.
            (Inl err,
             createWebhookLog
               \<lparr>l_sessionId = sessionId voiceSession,
                l_conversationId = conversationId voiceSession,
                l_requestData = requestData,
                l_responseData = Failed err,
                l_status = ''error''\<rparr> st'));
          st1 = emit (StorageGetSession (sessionId voiceSession)) st
      in case getSessionResult env of
           Inl err \<Rightarrow> catch err st1
         | Inr session \<Rightarrow>
             (let webhookPayload =
                    \<lparr>p_personality = pers, p_modality = ''VOICE'',
                     p_sessionId = sessionId voiceSession,
                     p_conversationId = conversationId voiceSession,
                     p_content = txt,
                     p_metadata = metadataOf session (dateNow env)\<rparr>;
                  st2 = emit (AxiosPost webhookUrl webhookPayload) st1
              in case postResult env of
                   Inl err \<Rightarrow> catch err st2
                 | Inr data \<Rightarrow>
                     (Inr data,
                      createWebhookLog
                        \<lparr>l_sessionId = sessionId voiceSession,
                         l_conversationId = conversationId voiceSession,
                         l_requestData = requestData,
                         l_responseData = Sent ''sent'' webhookUrl,
                         l_status = ''success''\<rparr> st2)))"

text \<open>\<^verbatim>\<open>webhookResponse?.response || webhookResponse?.text || fallback\<close>.\<close>

definition responseTextOf :: "WebhookReply option \<Rightarrow> string \<Rightarrow> string" where
  "responseTextOf webhookResponse fallback =
     orElse (case webhookResponse of None \<Rightarrow> None | Some d \<Rightarrow> r_response d)
       (orElse (case webhookResponse of None \<Rightarrow> None | Some d \<Rightarrow> r_text d) fallback)"

subsection \<open>Client messages\<close>

text \<open>
  \<^verbatim>\<open>processAudioInput\<close>. Every error thrown inside the \<^verbatim>\<open>try\<close> ends in the \<^verbatim>\<open>catch\<close>, which
  sends an error message to the client.
\<close>

definition processAudioInput ::
  "string \<Rightarrow> nat \<Rightarrow> nat \<Rightarrow> environment \<Rightarrow> VoiceStreamingService \<Rightarrow> VoiceStreamingService" where
  "processAudioInput audioData r clientWs env st =
     (let catch = (\<lambda>st'. emit (ClientSend clientWs (MsgError ''Failed to process audio'')) st');
          st1 = emit (ClientSend clientWs (MsgAudioProcessing ''Processing your speech...'')) st
      in case transcribeAudio audioData (geminiResult env) st1 of
           (Inl err, st2) \<Rightarrow> catch st2
         | (Inr transcribedText, st2) \<Rightarrow>
             if transcribedText = [] \<or> length (trim transcribedText) = 0 then st2
             else
               (let st3 = emit (ClientSend clientWs (MsgTranscript transcribedText)) st2
                in case routeToN8NWebhook transcribedText r (personality (objects st3 ! r)) env st3 of
                     (Inl err, st4) \<Rightarrow> catch st4
                   | (Inr webhookResponse, st4) \<Rightarrow>
                       (let responseText = responseTextOf webhookResponse transcribedText;
                            st5 = emit (ClientSend clientWs (MsgAiResponse responseText)) st4
                        in processTextInput responseText r st5)))"

text \<open>
  A client message after \<^verbatim>\<open>JSON.parse\<close>: \<open>None\<close> when parsing throws, otherwise the
  message by its \<^verbatim>\<open>type\<close>.
\<close>

datatype client_message =
    AudioInput string
  | TextInput string
  | Stop
  | Other string

text \<open>
  The \<^verbatim>\<open>message\<close> handler that \<^verbatim>\<open>setupClientHandlers\<close> registers, with the variables its
  closure holds (\<^verbatim>\<open>clientWs\<close>, \<^verbatim>\<open>voiceSession\<close>, \<^verbatim>\<open>streamSessionId\<close>). Its \<^verbatim>\<open>catch\<close> writes
  to the console only.
\<close>

definition onClientMessage ::
  "nat \<Rightarrow> nat \<Rightarrow> string \<Rightarrow> client_message option \<Rightarrow> environment
     \<Rightarrow> VoiceStreamingService \<Rightarrow> VoiceStreamingService" where
  "onClientMessage clientWs r streamSessionId data env st =
     (case data of
        None \<Rightarrow> st
      | Some (AudioInput audio) \<Rightarrow> processAudioInput audio r clientWs env st
      | Some (TextInput txt) \<Rightarrow>
          (case routeToN8NWebhook txt r (personality (objects st ! r)) env st of
             (Inl err, st1) \<Rightarrow> st1
           | (Inr webhookResponse, st1) \<Rightarrow>
               processTextInput (responseTextOf webhookResponse txt) r st1)
      | Some Stop \<Rightarrow> handleStopSpeaking r st
      | Some (Other ty) \<Rightarrow> st)"

text \<open>The \<^verbatim>\<open>close\<close> handler of the client socket.\<close>

definition onClientClose ::
  "string \<Rightarrow> nat \<Rightarrow> usage_outcome \<Rightarrow> VoiceStreamingService \<Rightarrow> VoiceStreamingService" where
  "onClientClose streamSessionId endTime usage st = cleanupSession streamSessionId endTime usage st"

subsection \<open>The handlers of the ElevenLabs socket\<close>

text \<open>
  \<^verbatim>\<open>initializeElevenLabs\<close> creates the socket, attaches it to the session object and
  registers three handlers. Creating the socket is the one step that can throw. The URL
  (voice and model) is not recorded.
\<close>

definition initializeElevenLabs ::
  "nat \<Rightarrow> nat \<Rightarrow> string \<Rightarrow> bool \<Rightarrow> VoiceStreamingService
     \<Rightarrow> (error + unit) \<times> VoiceStreamingService" where
  "initializeElevenLabs clientWs r pers newWebSocketThrows st =
     (if newWebSocketThrows then (Inl (Error ''new WebSocket''), st)
      else
        (Inr (),
         emit (ElevenLabsNew r)
           (st\<lparr>objects :=
              (objects st)[r := (objects st ! r)\<lparr>elevenLabsWs := Some \<lparr>readyState = CONNECTING\<rparr>\<rparr>]\<rparr>)))"

text \<open>
  The \<^verbatim>\<open>open\<close> handler: the socket is open when the package calls it, and it sends the
  initial frame, whose text is one space.
\<close>

definition onElevenLabsOpen :: "nat \<Rightarrow> VoiceStreamingService \<Rightarrow> VoiceStreamingService" where
  "onElevenLabsOpen r st =
     (case elevenLabsWs (objects st ! r) of
        None \<Rightarrow> st
      | Some ws \<Rightarrow>
          emit (ElevenLabsSend r (BosFrame '' ''))
            (st\<lparr>objects :=
               (objects st)[r := (objects st ! r)\<lparr>elevenLabsWs := Some (ws\<lparr>readyState := OPEN\<rparr>)\<rparr>]\<rparr>))"





subsection \<open>Session start\<close>

text \<open>
  \<^verbatim>\<open>initializeGeminiLive\<close> prepares a configuration and tells the client that the session
  is ready; the send is the one step that can throw, and the function throws it again.
\<close>

definition initializeGeminiLive ::
  "nat \<Rightarrow> nat \<Rightarrow> string \<Rightarrow> bool \<Rightarrow> VoiceStreamingService
     \<Rightarrow> (error + unit) \<times> VoiceStreamingService" where
  "initializeGeminiLive clientWs r pers sendThrows st =
     (if sendThrows then (Inl (Error ''send''), st)
      else (Inr (), emit (ClientSend clientWs (MsgVoiceReady ''Voice streaming ready'')) st))"

text \<open>
  What the outside does while \<^verbatim>\<open>initializeVoiceSession\<close> runs: whether creating the
  socket or the send to the client throws, and, for the \<^verbatim>\<open>cleanupSession\<close> that the
  \<^verbatim>\<open>catch\<close> starts, the clock and the fate of the usage report.
\<close>

record init_environment =
  newWebSocketThrows :: bool
  readySendThrows :: bool
  cleanupNow :: nat
  cleanupUsage :: usage_outcome

text \<open>
  \<^verbatim>\<open>initializeVoiceSession\<close>. \<^verbatim>\<open>Date.now()\<close> is read twice, for the stream identifier and
  for the start time. \<^verbatim>\<open>setupClientHandlers\<close> only registers \<open>onClientMessage\<close> and
  \<open>onClientClose\<close> on the client socket, which changes nothing in the state.
\<close>

definition initializeVoiceSession ::
  "nat \<Rightarrow> string \<Rightarrow> string \<Rightarrow> string \<Rightarrow> nat \<Rightarrow> nat \<Rightarrow> init_environment
     \<Rightarrow> VoiceStreamingService \<Rightarrow> VoiceStreamingService" where
  "initializeVoiceSession clientWs sid cid pers nowId nowStart env st =
     (let streamSessionId = streamSessionIdOf sid nowId;
          voiceSession =
            \<lparr>sessionId = sid, conversationId = cid, personality = pers,
             elevenLabsWs = None, isActive = True, startTime = nowStart\<rparr>;
          r = length (objects st);
          st1 = st\<lparr>objects := objects st @ [voiceSession],
                   activeSessions := (activeSessions st)(streamSessionId \<mapsto> r),
                   sessionKeyMap := (sessionKeyMap st)(sid \<mapsto> streamSessionId)\<rparr>;
          catch = (\<lambda>st'.
            cleanupSession streamSessionId (cleanupNow env) (cleanupUsage env)
              (emit (ClientSend clientWs (MsgError ''Failed to initialize voice streaming'')) st'))
      in case initializeElevenLabs clientWs r pers (newWebSocketThrows env) st1 of
           (Inl err, st2) \<Rightarrow> catch st2
         | (Inr u, st2) \<Rightarrow>
             (case initializeGeminiLive clientWs r pers (readySendThrows env) st2 of
                (Inl err, st3) \<Rightarrow> catch st3
              | (Inr u', st3) \<Rightarrow> st3))"

text \<open>A start during which nothing throws.\<close>

definition quietStart :: init_environment where
  "quietStart =
     \<lparr>newWebSocketThrows = False, readySendThrows = False,
      cleanupNow = 0, cleanupUsage = CallResolves\<rparr>"

text \<open>The service after its constructor: both maps empty.\<close>

definition newService :: "string option \<Rightarrow> VoiceStreamingService" where
  "newService env =
     \<lparr>objects = [], activeSessions = Map.empty, sessionKeyMap = Map.empty,
      N8N_WEBHOOK_URL = env, effects = []\<rparr>"

subsection \<open>A started session\<close>

text \<open>
  A fresh service on which client socket 7 has started a session for \<^verbatim>\<open>s1\<close> at clock
  reading 1000 and the ElevenLabs socket has opened.
\<close>

definition startedService :: VoiceStreamingService where
  "startedService =
     onElevenLabsOpen 0
       (initializeVoiceSession 7 ''s1'' ''c1'' ''Savantist'' 1000 1000 quietStart (newService None))"

subsection \<open>Reading the effects\<close>

fun webhookLogs :: "event list \<Rightarrow> WebhookLog list" where
  "webhookLogs [] = []"
| "webhookLogs (CreateWebhookLog entry # es) = entry # webhookLogs es"
| "webhookLogs (e # es) = webhookLogs es"

fun isClientSend :: "event \<Rightarrow> bool" where
  "isClientSend (ClientSend c m) = True"
| "isClientSend e = False"

text \<open>The synthesis link of a session object is there and open.\<close>

definition linkOpen :: "VoiceStreamingSession \<Rightarrow> bool" where
  "linkOpen s = (case elevenLabsWs s of None \<Rightarrow> False | Some ws \<Rightarrow> readyState ws = OPEN)"

text \<open>An optional string is usable when it is there and not empty (truthy in the source).\<close>

definition usable :: "string option \<Rightarrow> bool" where
  "usable a = (case a of None \<Rightarrow> False | Some t \<Rightarrow> t \<noteq> [])"

fun isOutboundCall :: "event \<Rightarrow> bool" where
  "isOutboundCall (AxiosPost url payload) = True"
| "isOutboundCall e = False"

subsection \<open>Sample environments\<close>

text \<open>
  The session of \<open>startedService\<close> before its ElevenLabs socket has opened.
\<close>

definition connectingService :: VoiceStreamingService where
  "connectingService =
     initializeVoiceSession 7 ''s1'' ''c1'' ''Savantist'' 1000 1000 quietStart (newService None)"

text \<open>
  The webhook answers \<^verbatim>\<open>{response: "Hi there"}\<close>; the transcription provider hears
  \<^verbatim>\<open>Hello\<close>; the session lookup finds no row.
\<close>

definition answeringEnvironment :: environment where
  "answeringEnvironment =
     \<lparr>geminiResult = Inr (Some ''Hello''),
      getSessionResult = Inr None,
      postResult = Inr (Some \<lparr>r_response = Some ''Hi there'', r_text = None\<rparr>),
      dateNow = 2000\<rparr>"

text \<open>The same, with the POST to the webhook rejected.\<close>

definition refusingEnvironment :: environment where
  "refusingEnvironment =
     \<lparr>geminiResult = Inr (Some ''Hello''),
      getSessionResult = Inr None,
      postResult = Inl (Error ''connect ECONNREFUSED''),
      dateNow = 2000\<rparr>"

text \<open>The same as the first, with a transcription of three spaces.\<close>

definition silentEnvironment :: environment where
  "silentEnvironment =
     \<lparr>geminiResult = Inr (Some ''   ''),
      getSessionResult = Inr None,
      postResult = Inr (Some \<lparr>r_response = Some ''Hi there'', r_text = None\<rparr>),
      dateNow = 2000\<rparr>"

subsection \<open>Runs of the service\<close>




text \<open>
  The session identifier that an effect hands to a collaborator (quota, audit log, audio
  cache, session lookup, webhook), if it hands one.
\<close>

fun eventSessionId :: "event \<Rightarrow> string option" where
  "eventSessionId (IncrementVoiceMinutes s m) = Some s"
| "eventSessionId (CreateWebhookLog entry) = Some (l_sessionId entry)"
| "eventSessionId (CreateAudioCache entry) = Some (c_sessionId entry)"
| "eventSessionId (AxiosPost url payload) = Some (p_sessionId payload)"
| "eventSessionId (StorageGetSession s) = Some s"
| "eventSessionId e = None"

definition carries :: "string \<Rightarrow> event \<Rightarrow> bool" where
  "carries sid e = (case eventSessionId e of None \<Rightarrow> True | Some s \<Rightarrow> s = sid)"

text \<open>The session identifiers of the session objects, by address.\<close>

definition sids :: "VoiceStreamingService \<Rightarrow> string list" where
  "sids st = map sessionId (objects st)"



text \<open>
  The started session's client reconnects: client socket 8 starts a second session for the
  same \<^verbatim>\<open>s1\<close> at clock reading 2000, while the first stream is still registered.
\<close>

definition reconnectedService :: VoiceStreamingService where
  "reconnectedService =
     initializeVoiceSession 8 ''s1'' ''c1'' ''Savantist'' 2000 2000 quietStart startedService"

section \<open>Properties\<close>

subsection \<open>Basic facts\<close>

lemma effects_emit [simp]: "effects (emit e st) = effects st @ [e]"
  and objects_emit [simp]: "objects (emit e st) = objects st"
  and activeSessions_emit [simp]: "activeSessions (emit e st) = activeSessions st"
  and sessionKeyMap_emit [simp]: "sessionKeyMap (emit e st) = sessionKeyMap st"
  and url_emit [simp]: "N8N_WEBHOOK_URL (emit e st) = N8N_WEBHOOK_URL st"
  by (simp_all add: emit_def)

lemma newEvents_self [simp]: "newEvents st st = []"
  by (simp add: newEvents_def)

lemma newEvents_append [simp]: "newEvents st (st\<lparr>effects := effects st @ es\<rparr>) = es"
  by (simp add: newEvents_def)



lemma effects_cleanupSession:
  "effects (cleanupSession k t u st) =
     effects st @
     (case activeSessions st k of
        None \<Rightarrow> []
      | Some r \<Rightarrow>
          (if u = ImportFails then []
           else [IncrementVoiceMinutes (sessionId (objects st ! r))
                   (durationMinutes (startTime (objects st ! r)) t)]) @
          (case elevenLabsWs (objects st ! r) of None \<Rightarrow> [] | Some ws \<Rightarrow> [ElevenLabsClose r]))"
  by (simp add: cleanupSession_def Let_def split: option.splits usage_outcome.splits)

lemma newEvents_cleanupSession_registered:
  "activeSessions st k = Some r \<Longrightarrow>
   newEvents st (cleanupSession k t u st) =
     (if u = ImportFails then []
      else [IncrementVoiceMinutes (sessionId (objects st ! r))
              (durationMinutes (startTime (objects st ! r)) t)]) @
     (case elevenLabsWs (objects st ! r) of None \<Rightarrow> [] | Some ws \<Rightarrow> [ElevenLabsClose r])"
  by (simp add: newEvents_def effects_cleanupSession)

subsection \<open>The sample states\<close>

lemma numberToString_1000: "numberToString 1000 = ''1000''"
  by (simp add: numberToString.simps digitChar_def)

lemma numberToString_2000: "numberToString 2000 = ''2000''"
  by (simp add: numberToString.simps digitChar_def)

lemma startedService_eq:
  "startedService =
     \<lparr>objects = [\<lparr>sessionId = ''s1'', conversationId = ''c1'', personality = ''Savantist'',
                   elevenLabsWs = Some \<lparr>readyState = OPEN\<rparr>, isActive = True, startTime = 1000\<rparr>],
      activeSessions = [''s1-voice-1000'' \<mapsto> 0],
      sessionKeyMap = [''s1'' \<mapsto> ''s1-voice-1000''],
      N8N_WEBHOOK_URL = None,
      effects = [ElevenLabsNew 0, ClientSend 7 (MsgVoiceReady ''Voice streaming ready''),
                 ElevenLabsSend 0 (BosFrame '' '')]\<rparr>"
  by (simp add: startedService_def onElevenLabsOpen_def initializeVoiceSession_def
      initializeElevenLabs_def initializeGeminiLive_def quietStart_def newService_def
      streamSessionIdOf_def numberToString_1000 emit_def Let_def)

lemma connectingService_eq:
  "connectingService =
     \<lparr>objects = [\<lparr>sessionId = ''s1'', conversationId = ''c1'', personality = ''Savantist'',
                   elevenLabsWs = Some \<lparr>readyState = CONNECTING\<rparr>, isActive = True, startTime = 1000\<rparr>],
      activeSessions = [''s1-voice-1000'' \<mapsto> 0],
      sessionKeyMap = [''s1'' \<mapsto> ''s1-voice-1000''],
      N8N_WEBHOOK_URL = None,
      effects = [ElevenLabsNew 0, ClientSend 7 (MsgVoiceReady ''Voice streaming ready'')]\<rparr>"
  by (simp add: connectingService_def initializeVoiceSession_def
      initializeElevenLabs_def initializeGeminiLive_def quietStart_def newService_def
      streamSessionIdOf_def numberToString_1000 emit_def Let_def)

lemma reconnectedService_eq:
  "reconnectedService =
     \<lparr>objects =
        [\<lparr>sessionId = ''s1'', conversationId = ''c1'', personality = ''Savantist'',
          elevenLabsWs = Some \<lparr>readyState = OPEN\<rparr>, isActive = True, startTime = 1000\<rparr>,
         \<lparr>sessionId = ''s1'', conversationId = ''c1'', personality = ''Savantist'',
          elevenLabsWs = Some \<lparr>readyState = CONNECTING\<rparr>, isActive = True, startTime = 2000\<rparr>],
      activeSessions = [''s1-voice-1000'' \<mapsto> 0, ''s1-voice-2000'' \<mapsto> 1],
      sessionKeyMap = [''s1'' \<mapsto> ''s1-voice-2000''],
      N8N_WEBHOOK_URL = None,
      effects = [ElevenLabsNew 0, ClientSend 7 (MsgVoiceReady ''Voice streaming ready''),
                 ElevenLabsSend 0 (BosFrame '' ''),
                 ElevenLabsNew 1, ClientSend 8 (MsgVoiceReady ''Voice streaming ready'')]\<rparr>"
  by (simp add: reconnectedService_def startedService_eq initializeVoiceSession_def
      initializeElevenLabs_def initializeGeminiLive_def quietStart_def
      streamSessionIdOf_def numberToString_2000 emit_def Let_def)

lemma trim_spaces: "trim ''   '' = []"
  by (simp add: trim_def isWhiteSpace_def)

subsection \<open>Teardown\<close>


lemma durationMinutes_div: "durationMinutes s t = - ((- (int t - int s)) div 60000)"
proof -
  have "\<lceil>real_of_int (int t - int s) / real_of_int 60000\<rceil> = - ((- (int t - int s)) div 60000)"
    by (rule ceiling_divide_eq_div)
  then show ?thesis by (simp add: durationMinutes_def)
qed

lemma ceil_div_bounds:
  fixes d :: int
  shows "60000 * (- ((- d) div 60000) - 1) < d \<and> d \<le> 60000 * (- ((- d) div 60000))"
proof -
  define q where "q = (- d) div 60000"
  define b where "b = (- d) mod 60000"
  have e: "- d = 60000 * q + b" by (simp add: q_def b_def)
  have b0: "0 \<le> b" by (simp add: b_def)
  have b1: "b < 60000" by (simp add: b_def)
  have "60000 * (- q - 1) < d" using e b0 b1 by (simp add: algebra_simps)
  moreover have "d \<le> 60000 * (- q)" using e b0 b1 by (simp add: algebra_simps)
  ultimately show ?thesis by (simp add: q_def)
qed

lemma durationMinutes_bounds:
  "60000 * (durationMinutes s t - 1) < int t - int s \<and> int t - int s \<le> 60000 * durationMinutes s t"
  unfolding durationMinutes_div by (rule ceil_div_bounds)

lemma durationMinutes_unique:
  "60000 * (m - 1) < int t - int s \<Longrightarrow> int t - int s \<le> 60000 * m \<Longrightarrow> durationMinutes s t = m"
proof -
  assume lo: "60000 * (m - 1) < int t - int s" and up: "int t - int s \<le> 60000 * m"
  let ?M = "durationMinutes s t"
  have "60000 * (m - 1) < 60000 * ?M" using lo durationMinutes_bounds [of s t] by linarith
  then have a: "m - 1 < ?M" by simp
  have "60000 * (?M - 1) < 60000 * m" using up durationMinutes_bounds [of s t] by linarith
  then have b: "?M - 1 < m" by simp
  show ?thesis using a b by linarith
qed

text \<open>
  Claim C3, as amended. When a registered session is torn down and the usage report is
  made, the one report carries the session's \<open>sessionId\<close> and \<open>m\<close> minutes, where \<open>m\<close> is the
  ceiling of the duration \<open>d\<close> (clock reading at teardown minus \<open>startTime\<close>, in
  milliseconds) over 60000: the least whole number of minutes that covers \<open>d\<close>. So 61
  seconds give 2 minutes, exactly 60 seconds give 1 minute, and a duration above 0 and up to
  1000 milliseconds gives 1 minute. A duration of exactly 0 milliseconds gives 0 minutes.
\<close>

theorem usage_rounds_up:
  assumes reg: "activeSessions st k = Some r"
    and call: "usage \<noteq> ImportFails"
    and d: "d = int now - int (startTime (objects st ! r))"
    and m: "m = durationMinutes (startTime (objects st ! r)) now"
  shows "filter isUsageReport (newEvents st (cleanupSession k now usage st)) =
           [IncrementVoiceMinutes (sessionId (objects st ! r)) m]
     \<and> m = \<lceil>real_of_int d / (60 * 1000)\<rceil>
     \<and> 60000 * (m - 1) < d \<and> d \<le> 60000 * m
     \<and> (d = 61000 \<longrightarrow> m = 2)
     \<and> (d = 60000 \<longrightarrow> m = 1)
     \<and> (0 < d \<and> d \<le> 1000 \<longrightarrow> m = 1)
     \<and> (d = 0 \<longrightarrow> m = 0)"
proof -
  have ev: "filter isUsageReport (newEvents st (cleanupSession k now usage st)) =
           [IncrementVoiceMinutes (sessionId (objects st ! r)) m]"
    using call by (simp add: newEvents_cleanupSession_registered [OF reg] m split: option.splits)
  have c: "m = \<lceil>real_of_int d / (60 * 1000)\<rceil>"
    by (simp add: m d durationMinutes_def)
  have b: "60000 * (m - 1) < d \<and> d \<le> 60000 * m"
    unfolding m d by (rule durationMinutes_bounds)
  have u: "\<And>n. 60000 * (n - 1) < d \<Longrightarrow> d \<le> 60000 * n \<Longrightarrow> m = n"
    unfolding m d by (rule durationMinutes_unique)
  have "d = 61000 \<longrightarrow> m = 2" using u [of 2] by simp
  moreover have "d = 60000 \<longrightarrow> m = 1" using u [of 1] by simp
  moreover have "0 < d \<and> d \<le> 1000 \<longrightarrow> m = 1" using u [of 1] by simp
  moreover have "d = 0 \<longrightarrow> m = 0" using u [of 0] by simp
  ultimately show ?thesis using ev c b by simp
qed

text \<open>
  The started session, torn down at clock reading 62000, has lasted 61 seconds and
  reports 2 minutes.
\<close>

theorem usage_rounds_up_witness:
  "activeSessions startedService ''s1-voice-1000'' = Some 0
   \<and> CallResolves \<noteq> ImportFails
   \<and> filter isUsageReport
        (newEvents startedService (cleanupSession ''s1-voice-1000'' 62000 CallResolves startedService)) =
       [IncrementVoiceMinutes ''s1'' 2]"
proof -
  have reg: "activeSessions startedService ''s1-voice-1000'' = Some 0"
    by (simp add: startedService_eq)
  have call: "CallResolves \<noteq> ImportFails" by simp
  have d: "int 62000 - int (startTime (objects startedService ! 0)) = 61000"
    by (simp add: startedService_eq)
  show ?thesis
    using usage_rounds_up [OF reg call refl refl, of 62000] reg d
    by (simp add: startedService_eq)
qed

text \<open>
  Claim C3 as stated fails at 0 milliseconds. A start at clock reading 1000 during which
  creating the ElevenLabs socket throws is torn down by the \<^verbatim>\<open>catch\<close> at the same clock
  reading: the session has lasted 0 milliseconds, which lies between 0 and 1000, and the
  report carries 0 minutes, not 1.
\<close>

theorem zero_duration_reports_zero_minutes:
  "filter isUsageReport
     (effects (initializeVoiceSession 7 ''s1'' ''c1'' ''Savantist'' 1000 1000
        \<lparr>newWebSocketThrows = True, readySendThrows = False,
         cleanupNow = 1000, cleanupUsage = CallResolves\<rparr> (newService None))) =
     [IncrementVoiceMinutes ''s1'' 0]
   \<and> [IncrementVoiceMinutes ''s1'' 0] \<noteq> [IncrementVoiceMinutes ''s1'' 1]"
  by (simp add: initializeVoiceSession_def initializeElevenLabs_def newService_def
      cleanupSession_def streamSessionIdOf_def emit_def Let_def durationMinutes_def)

subsection \<open>The two indices\<close>

text \<open>
  Claim C2, at the input where the code departs from it. A client starts a second stream
  for the same session identifier while the first is registered (a reconnect), and then
  the first client socket closes. Before the close both streams are registered and the
  secondary index maps the session identifier to the second stream. After the close the
  second stream is still registered and active, but the secondary index has lost its
  entry: the entry was removed without the primary entry it belongs to.
\<close>

theorem teardown_of_old_stream_unindexes_new_stream:
  "activeSessions reconnectedService ''s1-voice-1000'' = Some 0
   \<and> activeSessions reconnectedService ''s1-voice-2000'' = Some 1
   \<and> sessionKeyMap reconnectedService ''s1'' = Some ''s1-voice-2000''
   \<and> activeSessions (onClientClose ''s1-voice-1000'' 3000 CallResolves reconnectedService)
        ''s1-voice-2000'' = Some 1
   \<and> isActive (objects (onClientClose ''s1-voice-1000'' 3000 CallResolves reconnectedService) ! 1)
   \<and> sessionKeyMap (onClientClose ''s1-voice-1000'' 3000 CallResolves reconnectedService) ''s1'' = None"
  by (simp add: reconnectedService_eq onClientClose_def cleanupSession_def Let_def emit_def)

subsection \<open>The router\<close>

lemma route_lookup_fails:
  "getSessionResult env = Inl e \<Longrightarrow>
   routeToN8NWebhook txt r pers env st =
     (Inl e,
      st\<lparr>effects := effects st @
        [StorageGetSession (sessionId (objects st ! r)),
         CreateWebhookLog
           \<lparr>l_sessionId = sessionId (objects st ! r),
            l_conversationId = conversationId (objects st ! r),
            l_requestData = \<lparr>q_personality = pers, q_modality = ''VOICE'', q_content = txt\<rparr>,
            l_responseData = Failed e, l_status = ''error''\<rparr>]\<rparr>)"
  by (simp add: routeToN8NWebhook_def createWebhookLog_def emit_def Let_def)

lemma route_post_fails:
  "getSessionResult env = Inr s \<Longrightarrow> postResult env = Inl e \<Longrightarrow>
   routeToN8NWebhook txt r pers env st =
     (Inl e,
      st\<lparr>effects := effects st @
        [StorageGetSession (sessionId (objects st ! r)),
         AxiosPost (getWebhookUrl (N8N_WEBHOOK_URL st) pers ''VOICE'')
           \<lparr>p_personality = pers, p_modality = ''VOICE'',
            p_sessionId = sessionId (objects st ! r),
            p_conversationId = conversationId (objects st ! r), p_content = txt,
            p_metadata = metadataOf s (dateNow env)\<rparr>,
         CreateWebhookLog
           \<lparr>l_sessionId = sessionId (objects st ! r),
            l_conversationId = conversationId (objects st ! r),
            l_requestData = \<lparr>q_personality = pers, q_modality = ''VOICE'', q_content = txt\<rparr>,
            l_responseData = Failed e, l_status = ''error''\<rparr>]\<rparr>)"
  by (simp add: routeToN8NWebhook_def createWebhookLog_def emit_def Let_def)

lemma route_succeeds:
  "getSessionResult env = Inr s \<Longrightarrow> postResult env = Inr d \<Longrightarrow>
   routeToN8NWebhook txt r pers env st =
     (Inr d,
      st\<lparr>effects := effects st @
        [StorageGetSession (sessionId (objects st ! r)),
         AxiosPost (getWebhookUrl (N8N_WEBHOOK_URL st) pers ''VOICE'')
           \<lparr>p_personality = pers, p_modality = ''VOICE'',
            p_sessionId = sessionId (objects st ! r),
            p_conversationId = conversationId (objects st ! r), p_content = txt,
            p_metadata = metadataOf s (dateNow env)\<rparr>,
         CreateWebhookLog
           \<lparr>l_sessionId = sessionId (objects st ! r),
            l_conversationId = conversationId (objects st ! r),
            l_requestData = \<lparr>q_personality = pers, q_modality = ''VOICE'', q_content = txt\<rparr>,
            l_responseData = Sent ''sent'' (getWebhookUrl (N8N_WEBHOOK_URL st) pers ''VOICE''),
            l_status = ''success''\<rparr>]\<rparr>)"
  by (simp add: routeToN8NWebhook_def createWebhookLog_def emit_def Let_def)

text \<open>
  Claim C7. Every call of \<open>routeToN8NWebhook\<close>, whatever the session lookup and the POST
  do, writes exactly one audit log record. The call throws exactly when the lookup or the
  POST rejects, and it throws that error; the record has status \<^verbatim>\<open>error\<close> and the error
  when the call throws, and status \<^verbatim>\<open>success\<close> when the POST succeeds. The record is the
  last effect of the call, so it is written before the error reaches the caller. The POST
  is made once, unless the lookup has rejected before it.
\<close>

theorem router_logs_exactly_once:
  "(case routeToN8NWebhook txt r pers env st of
      (res, st') \<Rightarrow>
        res = (case getSessionResult env of
                 Inl e \<Rightarrow> Inl e
               | Inr s \<Rightarrow> (case postResult env of Inl e \<Rightarrow> Inl e | Inr d \<Rightarrow> Inr d))
        \<and> webhookLogs (newEvents st st') =
            [\<lparr>l_sessionId = sessionId (objects st ! r),
              l_conversationId = conversationId (objects st ! r),
              l_requestData = \<lparr>q_personality = pers, q_modality = ''VOICE'', q_content = txt\<rparr>,
              l_responseData =
                (case res of
                   Inl e \<Rightarrow> Failed e
                 | Inr d \<Rightarrow> Sent ''sent'' (getWebhookUrl (N8N_WEBHOOK_URL st) pers ''VOICE'')),
              l_status = (case res of Inl e \<Rightarrow> ''error'' | Inr d \<Rightarrow> ''success'')\<rparr>]
        \<and> webhookLogs [last (effects st')] = webhookLogs (newEvents st st')
        \<and> length (filter isOutboundCall (newEvents st st')) =
            (case getSessionResult env of Inl e \<Rightarrow> 0 | Inr s \<Rightarrow> 1))"
proof (cases "getSessionResult env")
  case (Inl e)
  show ?thesis by (simp add: route_lookup_fails [OF Inl] Inl)
next
  case (Inr s)
  show ?thesis
  proof (cases "postResult env")
    case (Inl e)
    show ?thesis by (simp add: route_post_fails [OF Inr Inl] Inr Inl)
  next
    case Inr2: (Inr d)
    show ?thesis by (simp add: route_succeeds [OF Inr Inr2] Inr Inr2)
  qed
qed

text \<open>A call for the started session whose POST is refused.\<close>

theorem router_logs_exactly_once_witness:
  "routeToN8NWebhook ''Hello'' 0 ''Savantist'' refusingEnvironment startedService =
     (Inl (Error ''connect ECONNREFUSED''),
      snd (routeToN8NWebhook ''Hello'' 0 ''Savantist'' refusingEnvironment startedService))
   \<and> webhookLogs (newEvents startedService
         (snd (routeToN8NWebhook ''Hello'' 0 ''Savantist'' refusingEnvironment startedService))) =
       [\<lparr>l_sessionId = ''s1'', l_conversationId = ''c1'',
         l_requestData = \<lparr>q_personality = ''Savantist'', q_modality = ''VOICE'', q_content = ''Hello''\<rparr>,
         l_responseData = Failed (Error ''connect ECONNREFUSED''), l_status = ''error''\<rparr>]"
  using router_logs_exactly_once [where ?txt = "''Hello''" and r = 0 and pers = "''Savantist''"
      and env = refusingEnvironment and st = startedService]
  by (simp add: refusingEnvironment_def startedService_eq split: prod.splits)

subsection \<open>Client messages\<close>

lemma processTextInput_open:
  "linkOpen (objects st ! r) \<Longrightarrow>
   processTextInput txt r st = emit (ElevenLabsSend r (TextFrame txt True)) st"
  by (simp add: processTextInput_def linkOpen_def split: option.splits)

lemma handleStopSpeaking_open:
  "linkOpen (objects st ! r) \<Longrightarrow>
   handleStopSpeaking r st = emit (ElevenLabsSend r (FlushFrame [] True)) st"
  by (simp add: handleStopSpeaking_def linkOpen_def split: option.splits)

lemma processTextInput_not_open:
  "\<not> linkOpen (objects st ! r) \<Longrightarrow> processTextInput txt r st = st"
  by (simp add: processTextInput_def linkOpen_def split: option.splits)

lemma handleStopSpeaking_not_open:
  "\<not> linkOpen (objects st ! r) \<Longrightarrow> handleStopSpeaking r st = st"
  by (simp add: handleStopSpeaking_def linkOpen_def split: option.splits)

lemma responseTextOf_response:
  "usable (r_response d) \<Longrightarrow> responseTextOf (Some d) txt = the (r_response d)"
  by (auto simp: responseTextOf_def orElse_def usable_def split: option.splits)

lemma responseTextOf_fallback:
  "responseTextOf None txt = txt"
  "\<not> usable (r_response d) \<Longrightarrow> \<not> usable (r_text d) \<Longrightarrow> responseTextOf (Some d) txt = txt"
  by (auto simp: responseTextOf_def orElse_def usable_def split: option.splits)

text \<open>
  Claim C8. On a session whose synthesis link is open, a \<^verbatim>\<open>text_input\<close> message for which
  the router returns a reply causes exactly these effects: the session lookup, one POST
  whose payload carries the session's personality, the modality \<^verbatim>\<open>VOICE\<close> and the submitted
  text as content, the audit log record, and one frame to ElevenLabs,
  \<^verbatim>\<open>{text, try_trigger_generation: true}\<close>, whose text is the reply's. No transcription is
  requested. A reply \<^verbatim>\<open>{response: "Hi there"}\<close> gives the text \<^verbatim>\<open>Hi there\<close>; a reply that is
  absent, or has neither a usable \<^verbatim>\<open>response\<close> nor a usable \<^verbatim>\<open>text\<close>, gives the submitted
  text.
\<close>

theorem text_input_is_routed_then_spoken:
  assumes link: "linkOpen (objects st ! r)"
    and lookup: "getSessionResult env = Inr row"
    and post: "postResult env = Inr reply"
  shows "newEvents st (onClientMessage c r k (Some (TextInput txt)) env st) =
     [StorageGetSession (sessionId (objects st ! r)),
      AxiosPost (getWebhookUrl (N8N_WEBHOOK_URL st) (personality (objects st ! r)) ''VOICE'')
        \<lparr>p_personality = personality (objects st ! r), p_modality = ''VOICE'',
         p_sessionId = sessionId (objects st ! r),
         p_conversationId = conversationId (objects st ! r), p_content = txt,
         p_metadata = metadataOf row (dateNow env)\<rparr>,
      CreateWebhookLog
        \<lparr>l_sessionId = sessionId (objects st ! r),
         l_conversationId = conversationId (objects st ! r),
         l_requestData =
           \<lparr>q_personality = personality (objects st ! r), q_modality = ''VOICE'', q_content = txt\<rparr>,
         l_responseData =
           Sent ''sent'' (getWebhookUrl (N8N_WEBHOOK_URL st) (personality (objects st ! r)) ''VOICE''),
         l_status = ''success''\<rparr>,
      ElevenLabsSend r (TextFrame (responseTextOf reply txt) True)]
   \<and> responseTextOf (Some \<lparr>r_response = Some ''Hi there'', r_text = other\<rparr>) txt = ''Hi there''
   \<and> responseTextOf None txt = txt
   \<and> (\<forall>d. \<not> usable (r_response d) \<and> \<not> usable (r_text d) \<longrightarrow> responseTextOf (Some d) txt = txt)"
proof -
  have "newEvents st (onClientMessage c r k (Some (TextInput txt)) env st) =
     [StorageGetSession (sessionId (objects st ! r)),
      AxiosPost (getWebhookUrl (N8N_WEBHOOK_URL st) (personality (objects st ! r)) ''VOICE'')
        \<lparr>p_personality = personality (objects st ! r), p_modality = ''VOICE'',
         p_sessionId = sessionId (objects st ! r),
         p_conversationId = conversationId (objects st ! r), p_content = txt,
         p_metadata = metadataOf row (dateNow env)\<rparr>,
      CreateWebhookLog
        \<lparr>l_sessionId = sessionId (objects st ! r),
         l_conversationId = conversationId (objects st ! r),
         l_requestData =
           \<lparr>q_personality = personality (objects st ! r), q_modality = ''VOICE'', q_content = txt\<rparr>,
         l_responseData =
           Sent ''sent'' (getWebhookUrl (N8N_WEBHOOK_URL st) (personality (objects st ! r)) ''VOICE''),
         l_status = ''success''\<rparr>,
      ElevenLabsSend r (TextFrame (responseTextOf reply txt) True)]"
    using link
    by (simp add: onClientMessage_def route_succeeds [OF lookup post] processTextInput_open
        newEvents_def)
  moreover have "responseTextOf (Some \<lparr>r_response = Some ''Hi there'', r_text = other\<rparr>) txt = ''Hi there''"
    by (simp add: responseTextOf_def orElse_def)
  ultimately show ?thesis
    by (simp add: responseTextOf_fallback)
qed

text \<open>
  The scenario of the claim: personality \<^verbatim>\<open>Savantist\<close>, the message
  \<^verbatim>\<open>{type: "text_input", text: "Hello"}\<close>, the reply \<^verbatim>\<open>{response: "Hi there"}\<close>.
\<close>

theorem text_input_is_routed_then_spoken_witness:
  "linkOpen (objects startedService ! 0)
   \<and> getSessionResult answeringEnvironment = Inr None
   \<and> postResult answeringEnvironment = Inr (Some \<lparr>r_response = Some ''Hi there'', r_text = None\<rparr>)
   \<and> newEvents startedService
        (onClientMessage 7 0 ''s1-voice-1000'' (Some (TextInput ''Hello'')) answeringEnvironment
           startedService) =
       [StorageGetSession ''s1'',
        AxiosPost ''https://autism.app.n8n.cloud/webhook/autism-gold''
          \<lparr>p_personality = ''Savantist'', p_modality = ''VOICE'', p_sessionId = ''s1'',
           p_conversationId = ''c1'', p_content = ''Hello'',
           p_metadata = \<lparr>m_tier = ''Free Trial'', m_tokenBalance = 0,
                          m_walletAddress = None, m_timestamp = 2000\<rparr>\<rparr>,
        CreateWebhookLog
          \<lparr>l_sessionId = ''s1'', l_conversationId = ''c1'',
           l_requestData = \<lparr>q_personality = ''Savantist'', q_modality = ''VOICE'', q_content = ''Hello''\<rparr>,
           l_responseData = Sent ''sent'' ''https://autism.app.n8n.cloud/webhook/autism-gold'',
           l_status = ''success''\<rparr>,
        ElevenLabsSend 0 (TextFrame ''Hi there'' True)]"
proof -
  have link: "linkOpen (objects startedService ! 0)"
    by (simp add: startedService_eq linkOpen_def)
  have lookup: "getSessionResult answeringEnvironment = Inr None"
    by (simp add: answeringEnvironment_def)
  have post: "postResult answeringEnvironment = Inr (Some \<lparr>r_response = Some ''Hi there'', r_text = None\<rparr>)"
    by (simp add: answeringEnvironment_def)
  show ?thesis
    using text_input_is_routed_then_spoken [OF link lookup post, where c = 7 and k = "''s1-voice-1000''"
        and ?txt = "''Hello''"]
      link lookup post
    by (simp add: startedService_eq answeringEnvironment_def getWebhookUrl_def
        UNIFIED_WEBHOOK_URL_def metadataOf_def orElse_def responseTextOf_def)
qed

text \<open>
  Claim C9. On a session whose synthesis link is open, a \<^verbatim>\<open>stop\<close> message causes exactly
  one effect, the frame \<^verbatim>\<open>{text: "", flush: true}\<close> to ElevenLabs; both registry maps and
  every session object are as before, so the session stays registered and active.
\<close>

theorem stop_sends_one_flush:
  assumes link: "linkOpen (objects st ! r)"
  shows "newEvents st (onClientMessage c r k (Some Stop) env st) =
           [ElevenLabsSend r (FlushFrame [] True)]
   \<and> activeSessions (onClientMessage c r k (Some Stop) env st) = activeSessions st
   \<and> sessionKeyMap (onClientMessage c r k (Some Stop) env st) = sessionKeyMap st
   \<and> objects (onClientMessage c r k (Some Stop) env st) = objects st"
  using link by (simp add: onClientMessage_def handleStopSpeaking_open newEvents_def)

text \<open>The started session receives \<^verbatim>\<open>{type: "stop"}\<close>.\<close>

theorem stop_sends_one_flush_witness:
  "linkOpen (objects startedService ! 0)
   \<and> newEvents startedService
        (onClientMessage 7 0 ''s1-voice-1000'' (Some Stop) answeringEnvironment startedService) =
       [ElevenLabsSend 0 (FlushFrame [] True)]
   \<and> activeSessions
        (onClientMessage 7 0 ''s1-voice-1000'' (Some Stop) answeringEnvironment startedService)
        ''s1-voice-1000'' = Some 0
   \<and> isActive (objects
        (onClientMessage 7 0 ''s1-voice-1000'' (Some Stop) answeringEnvironment startedService) ! 0)"
proof -
  have link: "linkOpen (objects startedService ! 0)"
    by (simp add: startedService_eq linkOpen_def)
  show ?thesis
    using stop_sends_one_flush [OF link, where c = 7 and k = "''s1-voice-1000''"
        and env = answeringEnvironment] link
    by (simp add: startedService_eq)
qed

text \<open>
  Claim C10. If the session's ElevenLabs socket is absent or not open, \<open>processTextInput\<close>
  and \<open>handleStopSpeaking\<close> return the state unchanged: no frame is sent, nothing is thrown
  and the client is told nothing. So a \<^verbatim>\<open>stop\<close> message changes nothing, and a \<^verbatim>\<open>text_input\<close>
  message sends nothing to the client and no frame to ElevenLabs.
\<close>

theorem closed_link_drops_silently:
  assumes closed: "\<not> linkOpen (objects st ! r)"
  shows "processTextInput txt r st = st
   \<and> handleStopSpeaking r st = st
   \<and> onClientMessage c r k (Some Stop) env st = st
   \<and> filter isClientSend (newEvents st (onClientMessage c r k (Some (TextInput txt)) env st)) = []
   \<and> (\<forall>f. ElevenLabsSend r f \<notin> set (newEvents st (onClientMessage c r k (Some (TextInput txt)) env st)))"
proof -
  have "filter isClientSend (newEvents st (onClientMessage c r k (Some (TextInput txt)) env st)) = []
      \<and> (\<forall>f. ElevenLabsSend r f \<notin> set (newEvents st (onClientMessage c r k (Some (TextInput txt)) env st)))"
  proof (cases "getSessionResult env")
    case (Inl e)
    show ?thesis by (simp add: onClientMessage_def route_lookup_fails [OF Inl])
  next
    case (Inr s)
    show ?thesis
    proof (cases "postResult env")
      case (Inl e)
      show ?thesis by (simp add: onClientMessage_def route_post_fails [OF Inr Inl])
    next
      case Inr2: (Inr d)
      show ?thesis
        using closed
        by (simp add: onClientMessage_def route_succeeds [OF Inr Inr2] processTextInput_not_open)
    qed
  qed
  then show ?thesis
    using closed
    by (simp add: onClientMessage_def processTextInput_not_open handleStopSpeaking_not_open)
qed

text \<open>The session whose ElevenLabs socket is still connecting.\<close>

theorem closed_link_drops_silently_witness:
  "\<not> linkOpen (objects connectingService ! 0)
   \<and> processTextInput ''Hi there'' 0 connectingService = connectingService
   \<and> handleStopSpeaking 0 connectingService = connectingService"
proof -
  have closed: "\<not> linkOpen (objects connectingService ! 0)"
    by (simp add: connectingService_eq linkOpen_def)
  show ?thesis
    using closed_link_drops_silently [OF closed, where ?txt = "''Hi there''" and c = 7
        and k = "''s1-voice-1000''" and env = answeringEnvironment]
      closed
    by simp
qed

subsection \<open>Failures while a message is handled\<close>

lemma no_speech_ends_in_catch:
  assumes "geminiResult env = Inr None \<or> (\<exists>t. geminiResult env = Inr (Some t) \<and> trim t = [])"
  shows "newEvents st (processAudioInput a r c env st) =
     [ClientSend c (MsgAudioProcessing ''Processing your speech...''),
      GeminiGenerateContent a,
      ClientSend c (MsgError ''Failed to process audio'')]"
  using assms
  by (auto simp: processAudioInput_def transcribeAudio_def newEvents_def emit_def Let_def)

lemma failed_text_input_tells_client_nothing:
  assumes "getSessionResult env = Inl e \<or> postResult env = Inl e"
  shows "filter isClientSend
           (newEvents st (onClientMessage c r k (Some (TextInput t)) env st)) = []"
proof (cases "getSessionResult env")
  case (Inl e')
  show ?thesis by (simp add: onClientMessage_def route_lookup_fails [OF Inl])
next
  case (Inr row)
  then obtain e' where p: "postResult env = Inl e'" using assms by auto
  show ?thesis by (simp add: onClientMessage_def route_post_fails [OF Inr p])
qed

text \<open>
  Claim C4, at the input where the code departs from it. The started session receives an
  \<^verbatim>\<open>audio_input\<close> message and the transcription provider answers with three spaces. The
  client is sent the acknowledgement and then an error message: \<open>transcribeAudio\<close> throws
  on an empty transcription, so the branch of \<open>processAudioInput\<close> that returns silently
  is never reached. No transcript and no reply are sent, and the router is not called.
\<close>

theorem whitespace_transcription_is_reported_as_error:
  "newEvents startedService
     (onClientMessage 7 0 ''s1-voice-1000'' (Some (AudioInput ''UklGRg=='')) silentEnvironment
        startedService) =
     [ClientSend 7 (MsgAudioProcessing ''Processing your speech...''),
      GeminiGenerateContent ''UklGRg=='',
      ClientSend 7 (MsgError ''Failed to process audio'')]"
  by (simp add: onClientMessage_def processAudioInput_def transcribeAudio_def trim_spaces
      silentEnvironment_def startedService_eq newEvents_def emit_def Let_def)

text \<open>
  Claim C6, at the input where the code departs from it. The started session receives a
  \<^verbatim>\<open>text_input\<close> message and the POST to the webhook is refused. The effects are the session
  lookup, the POST and the audit log record with status \<^verbatim>\<open>error\<close>: nothing is sent to the
  client. An \<^verbatim>\<open>audio_input\<close> message that meets the same refusal does end with an error
  message to the client.
\<close>

theorem text_input_router_failure_is_not_reported:
  "newEvents startedService
     (onClientMessage 7 0 ''s1-voice-1000'' (Some (TextInput ''Hello'')) refusingEnvironment
        startedService) =
     [StorageGetSession ''s1'',
      AxiosPost ''https://autism.app.n8n.cloud/webhook/autism-gold''
        \<lparr>p_personality = ''Savantist'', p_modality = ''VOICE'', p_sessionId = ''s1'',
         p_conversationId = ''c1'', p_content = ''Hello'',
         p_metadata = \<lparr>m_tier = ''Free Trial'', m_tokenBalance = 0,
                        m_walletAddress = None, m_timestamp = 2000\<rparr>\<rparr>,
      CreateWebhookLog
        \<lparr>l_sessionId = ''s1'', l_conversationId = ''c1'',
         l_requestData = \<lparr>q_personality = ''Savantist'', q_modality = ''VOICE'', q_content = ''Hello''\<rparr>,
         l_responseData = Failed (Error ''connect ECONNREFUSED''),
         l_status = ''error''\<rparr>]
   \<and> filter isClientSend
        (newEvents startedService
           (onClientMessage 7 0 ''s1-voice-1000'' (Some (TextInput ''Hello'')) refusingEnvironment
              startedService)) = []
   \<and> filter isClientSend
        (newEvents startedService
           (onClientMessage 7 0 ''s1-voice-1000'' (Some (AudioInput ''UklGRg=='')) refusingEnvironment
              startedService)) =
       [ClientSend 7 (MsgAudioProcessing ''Processing your speech...''),
        ClientSend 7 (MsgTranscript ''Hello''),
        ClientSend 7 (MsgError ''Failed to process audio'')]"
  by (simp add: onClientMessage_def processAudioInput_def transcribeAudio_def
      routeToN8NWebhook_def createWebhookLog_def getWebhookUrl_def UNIFIED_WEBHOOK_URL_def
      metadataOf_def orElse_def trim_def isWhiteSpace_def
      refusingEnvironment_def startedService_eq newEvents_def emit_def Let_def)

subsection \<open>The session identifier\<close>










lemma carries_simps [simp]:
  "carries sid (ClientSend c m)" "carries sid (ElevenLabsSend r f)"
  "carries sid (GeminiGenerateContent a)"
  "carries sid (StorageGetSession s) = (s = sid)"
  "carries sid (AxiosPost url payload) = (p_sessionId payload = sid)"
  "carries sid (CreateWebhookLog entry) = (l_sessionId entry = sid)"
  "carries sid (CreateAudioCache ce) = (c_sessionId ce = sid)"
  "carries sid (IncrementVoiceMinutes s mins) = (s = sid)"
  "carries sid (ElevenLabsClose r)" "carries sid (ElevenLabsNew r)"
  by (simp_all add: carries_def)










lemma sids_simps [simp]:
  "sids (emit e st) = sids st"
  "sids (st\<lparr>objects := xs\<rparr>) = map sessionId xs"
  "sids (st\<lparr>activeSessions := a\<rparr>) = sids st"
  "sids (st\<lparr>sessionKeyMap := m\<rparr>) = sids st"
  "sids (st\<lparr>effects := es\<rparr>) = sids st"
  by (simp_all add: sids_def)






lemma length_sids [simp]: "length (sids st) = length (objects st)"
  by (simp add: sids_def)














end
